theory Spec2Isabelle
  imports Main "HOL-Library.Sublist" "HOL-Library.AList"
begin

section \<open>Python strings\<close>

text \<open>
  A Python \<open>str\<close> is modelled as a \<open>string\<close> holding its UTF-8 bytes. Splitting on
  the line feed and comparing with ASCII literals work on the bytes as they do on the code
  points, since no byte below 128 occurs inside a multi-byte sequence.
\<close>

abbreviation nl :: string where
  "nl \<equiv> [CHR 0x0A]"

text \<open>\<open>sep.join(xs)\<close>.\<close>

fun join :: "string \<Rightarrow> string list \<Rightarrow> string" where
  "join sep [] = []"
| "join sep [x] = x"
| "join sep (x # y # ys) = x @ sep @ join sep (y # ys)"

text \<open>\<open>s.split(c)\<close> for a separator of one character: never the empty list.\<close>

fun split_on :: "char \<Rightarrow> string \<Rightarrow> string list" where
  "split_on c [] = [[]]"
| "split_on c (x # xs) =
     (if x = c then [] # split_on c xs
      else (case split_on c xs of [] \<Rightarrow> [[x]] | l # ls \<Rightarrow> (x # l) # ls))"

text \<open>
  The characters \<open>str.strip()\<close> removes are those of \<open>str.isspace\<close>: U+0009 to U+000D,
  U+001C to U+0020, U+0085, U+00A0, U+1680, U+2000 to U+200A, U+2028, U+2029, U+202F,
  U+205F and U+3000, here each as its UTF-8 byte sequence.
\<close>

definition whitespace :: "string list" where
  "whitespace =
     [[CHR 0x09], [CHR 0x0A], [CHR 0x0B], [CHR 0x0C], [CHR 0x0D],
      [CHR 0x1C], [CHR 0x1D], [CHR 0x1E], [CHR 0x1F], [CHR 0x20],
      [CHR 0xC2, CHR 0x85], [CHR 0xC2, CHR 0xA0],
      [CHR 0xE1, CHR 0x9A, CHR 0x80],
      [CHR 0xE2, CHR 0x80, CHR 0x80], [CHR 0xE2, CHR 0x80, CHR 0x81],
      [CHR 0xE2, CHR 0x80, CHR 0x82], [CHR 0xE2, CHR 0x80, CHR 0x83],
      [CHR 0xE2, CHR 0x80, CHR 0x84], [CHR 0xE2, CHR 0x80, CHR 0x85],
      [CHR 0xE2, CHR 0x80, CHR 0x86], [CHR 0xE2, CHR 0x80, CHR 0x87],
      [CHR 0xE2, CHR 0x80, CHR 0x88], [CHR 0xE2, CHR 0x80, CHR 0x89],
      [CHR 0xE2, CHR 0x80, CHR 0x8A],
      [CHR 0xE2, CHR 0x80, CHR 0xA8], [CHR 0xE2, CHR 0x80, CHR 0xA9],
      [CHR 0xE2, CHR 0x80, CHR 0xAF], [CHR 0xE2, CHR 0x81, CHR 0x9F],
      [CHR 0xE3, CHR 0x80, CHR 0x80]]"

text \<open>Removes leading occurrences of the sequences \<open>ws\<close> until none is a prefix.\<close>

function strip_prefixes :: "string list \<Rightarrow> string \<Rightarrow> string" where
  "strip_prefixes ws s =
     (case find (\<lambda>w. w \<noteq> [] \<and> prefix w s) ws of
        None \<Rightarrow> s
      | Some w \<Rightarrow> strip_prefixes ws (drop (length w) s))"
  by pat_completeness auto
termination
proof (relation "measure (\<lambda>(ws, s). length s)")
  show "wf (measure (\<lambda>(ws, s). length s))" by simp
next
  fix ws :: "string list" and s w :: string
  assume "find (\<lambda>w. w \<noteq> [] \<and> prefix w s) ws = Some w"
  then have "w \<noteq> []" "prefix w s"
    by (auto simp: find_Some_iff)
  then have "0 < length w" "length w \<le> length s"
    by (auto dest: prefix_length_le)
  then have "length s - length w < length s"
    by linarith
  then show "((ws, drop (length w) s), (ws, s)) \<in> measure (\<lambda>(ws, s). length s)"
    by simp
qed

definition lstrip :: "string \<Rightarrow> string" where
  "lstrip s = strip_prefixes whitespace s"

definition rstrip :: "string \<Rightarrow> string" where
  "rstrip s = rev (strip_prefixes (map rev whitespace) (rev s))"

text \<open>\<open>s.strip()\<close>.\<close>

definition strip :: "string \<Rightarrow> string" where
  "strip s = rstrip (lstrip s)"

section \<open>utils.py: headline extraction\<close>

text \<open>
  The loop of \<open>extract_headlines\<close> over the stripped non-empty lines, with its two
  accumulators \<open>headlines\<close> and \<open>current_block\<close>.
\<close>

fun process_lines :: "string list \<Rightarrow> string list \<Rightarrow> string list \<Rightarrow> string list \<times> string list" where
  "process_lines [] headlines current_block = (headlines, current_block)"
| "process_lines (line # lines) headlines current_block =
     (if line = ''More'' then
        (case current_block of
           [] \<Rightarrow> process_lines lines headlines current_block
         | first # _ \<Rightarrow> process_lines lines (headlines @ [first]) [])
      else process_lines lines headlines (current_block @ [line]))"

text \<open>The list \<open>lines\<close> of the source: stripped lines, the blank ones dropped.\<close>

definition clean_lines :: "string \<Rightarrow> string list" where
  "clean_lines cleaned_text =
     map strip (filter (\<lambda>line. strip line \<noteq> []) (split_on CHR 0x0A cleaned_text))"

text \<open>The list \<open>headlines\<close> as it stands before the final join.\<close>

definition headline_list :: "string \<Rightarrow> string list" where
  "headline_list cleaned_text =
     (case process_lines (clean_lines cleaned_text) [] [] of
        (headlines, current_block) \<Rightarrow>
          (case current_block of
             [] \<Rightarrow> headlines
           | first # _ \<Rightarrow> headlines @ [first]))"

definition extract_headlines :: "string \<Rightarrow> string" where
  "extract_headlines cleaned_text = join nl (headline_list cleaned_text)"

section \<open>Exceptions, dictionaries and the outside world\<close>

text \<open>
  A raised exception is a value: FastAPI's \<open>HTTPException\<close> with its status code and
  detail, or any other exception, which carries the text \<open>str(e)\<close> gives for it.
\<close>

datatype exn = HTTPException nat string | Exception string

text \<open>
  A dictionary with string keys is an association list in insertion order; the assignment
  \<open>d[k] = v\<close> is \<open>AList.update k v d\<close>, and an empty dictionary is falsy.
  \<open>analysis\<close> maps a topic to its text; \<open>source_data\<close> is what a scraper returns, such
  as \<open>{"news_analysis": {...}}\<close>.
\<close>

type_synonym analysis = "(string \<times> string) list"

type_synonym source_data = "(string \<times> analysis) list"

text \<open>\<open>d.get(k, default)\<close>.\<close>

definition dict_get :: "(string \<times> 'v) list \<Rightarrow> string \<Rightarrow> 'v \<Rightarrow> 'v" where
  "dict_get d k dflt = (case map_of d k of None \<Rightarrow> dflt | Some v \<Rightarrow> v)"

text \<open>
  One article of the NewsAPI answer. \<open>article.get('title', '')\<close> is only tested for
  truth and printed when true, so a missing or null field is the empty string here.
\<close>

record article =
  title :: string
  description :: string

text \<open>
  What \<open>requests.get\<close> and the reading of its answer can do: raise, or give a status
  code, whose body either parses to a list of articles (\<open>data.get('articles', [])\<close>) or
  raises while it is read.
\<close>

datatype body = BodyRaises exn | Articles "article list"

datatype http_outcome = GetRaises exn | HttpResponse nat body

text \<open>The calls that leave the process, in the order they are made.\<close>

datatype event =
    BrightDataScrape "string list"
  | NewsAPIScrape "string list"
  | RedditScrape "string list"
  | HttpGet string
  | Gemini string
  | TTS string

text \<open>
  Everything outside the repository's own code: the environment, the modules
  \<open>news_scraper\<close> and \<open>reddit_scraper\<close>, the HTTP client, the Gemini client, gTTS, the
  clock and the file system. \<open>str_HTTPException\<close> is the library's \<open>str(e)\<close> for an
  \<open>HTTPException\<close>. \<open>gTTS_save text filename\<close> is \<open>None\<close> when the file was written.
\<close>

record world =
  getenv :: "string \<Rightarrow> string option"
  str_HTTPException :: "nat \<Rightarrow> string \<Rightarrow> string"
  NewsScraper_scrape_news :: "string list \<Rightarrow> exn + source_data"
  scrape_reddit_topics :: "string list \<Rightarrow> exn + source_data"
  requests_get :: "string \<Rightarrow> string \<Rightarrow> string \<Rightarrow> http_outcome"
  generate_content :: "string \<Rightarrow> exn + string"
  now_timestamp :: string
  gTTS_save :: "string \<Rightarrow> string \<Rightarrow> exn option"
  path_exists :: "string \<Rightarrow> bool"
  read_file :: "string \<Rightarrow> exn + string"

text \<open>\<open>str(e)\<close>.\<close>

definition str_exn :: "world \<Rightarrow> exn \<Rightarrow> string" where
  "str_exn w e =
     (case e of
        HTTPException status_code detail \<Rightarrow> str_HTTPException w status_code detail
      | Exception text \<Rightarrow> text)"

text \<open>The truth value of \<open>os.getenv(name)\<close>: set, and not to the empty string.\<close>

definition truthy :: "string option \<Rightarrow> bool" where
  "truthy v = (case v of None \<Rightarrow> False | Some s \<Rightarrow> s \<noteq> [])"

section \<open>utils.py: the two Gemini calls\<close>

definition system_prompt_news_script :: string where
  "system_prompt_news_script = join nl
     [[],
      ''You are my personal news editor and scriptwriter for a news podcast. Your job is to turn raw headlines into a clean, professional, and TTS-friendly news script.'',
      [],
      ''The final output will be read aloud by a news anchor or text-to-speech engine. So:'',
      ''- Do not include any special characters, emojis, formatting symbols, or markdown.'',
      ''- Do not add any preamble or framing like '' @ [CHR 0x22] @ ''Here's your summary'' @ [CHR 0x22] @ '' or '' @ [CHR 0x22] @ ''Let me explain'' @ [CHR 0x22] @ ''.'',
      ''- Write in full, clear, spoken-language paragraphs.'',
      ''- Keep the tone formal, professional, and broadcast-style '' @ [CHR 0xE2, CHR 0x80, CHR 0x9A, CHR 0xC3, CHR 0x84, CHR 0xC3, CHR 0xAE] @ '' just like a real TV news script.'',
      ''- Focus on the most important headlines and turn them into short, informative news segments that sound natural when spoken.'',
      ''- Start right away with the actual script, using transitions between topics if needed.'',
      [],
      ''Remember: Your only output should be a clean script that is ready to be read out loud.'',
      []]"

definition summarize_with_gemini_news_script ::
  "world \<Rightarrow> string option \<Rightarrow> string \<Rightarrow> (exn + string) \<times> event list" where
  "summarize_with_gemini_news_script w api_key headlines =
     (let full_prompt =
        system_prompt_news_script @ nl @ nl @ ''Headlines to summarize:'' @ nl @ headlines
      in case generate_content w full_prompt of
           Inr text \<Rightarrow> (Inr text, [Gemini full_prompt])
         | Inl e \<Rightarrow>
             (Inl (HTTPException 500 (''Gemini API error: '' @ str_exn w e)),
              [Gemini full_prompt]))"

definition system_prompt_broadcast :: string where
  "system_prompt_broadcast = join nl
     [[],
      ''    You are broadcast_news_writer, a professional virtual news reporter. Generate natural, TTS-ready news reports using available sources:'',
      [],
      ''    For each topic, STRUCTURE BASED ON AVAILABLE DATA:'',
      ''    1. If news exists: '' @ [CHR 0x22] @ ''According to official reports...'' @ [CHR 0x22] @ '' + summary'',
      ''    2. If Reddit exists: '' @ [CHR 0x22] @ ''Online discussions on Reddit reveal...'' @ [CHR 0x22] @ '' + summary'',
      ''    3. If both exist: Present news first, then Reddit reactions'',
      ''    4. If neither exists: Create a general introduction about the topic and mention that current data is limited'',
      [],
      ''    Formatting rules:'',
      ''    - ALWAYS start directly with the content, NO INTRODUCTIONS'',
      ''    - Keep audio length 60-120 seconds per topic'',
      ''    - Use natural speech transitions like '' @ [CHR 0x22] @ ''Meanwhile, online discussions...'' @ [CHR 0x22] @ '' '',
      ''    - Incorporate 1-2 short quotes from Reddit when available'',
      ''    - Maintain neutral tone but highlight key sentiments'',
      ''    - If no data is available, provide brief context about the topic and why it's newsworthy'',
      ''    - End with '' @ [CHR 0x22] @ ''To wrap up this segment...'' @ [CHR 0x22] @ '' summary'',
      [],
      ''    Write in full paragraphs optimized for speech synthesis. Avoid markdown.'',
      ''    '']"

text \<open>
  The text of one category for one topic, as the loop of \<open>generate_broadcast_news\<close> reads
  it: the news text is dropped when it starts with \<open>Error:\<close>.
\<close>

definition news_content_of :: "source_data \<Rightarrow> string \<Rightarrow> string" where
  "news_content_of news_data topic =
     (if news_data \<noteq> [] then
        (case map_of news_data ''news_analysis'' of
           None \<Rightarrow> []
         | Some news_analysis \<Rightarrow>
             (let news_content = dict_get news_analysis topic []
              in if prefix ''Error:'' news_content then [] else news_content))
      else [])"

definition reddit_content_of :: "source_data \<Rightarrow> string \<Rightarrow> string" where
  "reddit_content_of reddit_data topic =
     (if reddit_data \<noteq> [] then
        (case map_of reddit_data ''reddit_analysis'' of
           None \<Rightarrow> []
         | Some reddit_analysis \<Rightarrow> dict_get reddit_analysis topic [])
      else [])"

text \<open>The list \<open>context\<close> built for one topic.\<close>

definition topic_context :: "source_data \<Rightarrow> source_data \<Rightarrow> string \<Rightarrow> string list" where
  "topic_context news_data reddit_data topic =
     (let news_content = news_content_of news_data topic;
          reddit_content = reddit_content_of reddit_data topic
      in (if news_content \<noteq> [] then [''OFFICIAL NEWS CONTENT:'' @ nl @ news_content] else [])
         @ (if reddit_content \<noteq> [] then [''REDDIT DISCUSSION CONTENT:'' @ nl @ reddit_content]
            else []))"

text \<open>The string appended to \<open>topic_blocks\<close> for one topic.\<close>

definition topic_block :: "source_data \<Rightarrow> source_data \<Rightarrow> string \<Rightarrow> string" where
  "topic_block news_data reddit_data topic =
     (let context = topic_context news_data reddit_data topic
      in if context \<noteq> [] then ''TOPIC: '' @ topic @ nl @ nl @ join (nl @ nl) context
         else ''TOPIC: '' @ topic @ nl @ nl
              @ ''LIMITED DATA: No current news or Reddit data available for this topic.'')"

definition topic_blocks :: "source_data \<Rightarrow> source_data \<Rightarrow> string list \<Rightarrow> string list" where
  "topic_blocks news_data reddit_data topics = map (topic_block news_data reddit_data) topics"

definition user_prompt_of :: "source_data \<Rightarrow> source_data \<Rightarrow> string list \<Rightarrow> string" where
  "user_prompt_of news_data reddit_data topics =
     (let blocks = topic_blocks news_data reddit_data topics
      in if blocks = [] then
           ''Create a brief news segment explaining that current data for topics ''
           @ join '', '' topics
           @ '' is temporarily unavailable, but provide general context about why these topics are newsworthy.''
         else ''Create broadcast segments for these topics using available sources:'' @ nl @ nl
              @ join (nl @ nl @ ''--- NEW TOPIC ---'' @ nl @ nl) blocks)"

definition fallback_script :: "string list \<Rightarrow> string" where
  "fallback_script topics =
     ''Welcome to your news update. Today we're covering '' @ join '', '' topics
     @ ''. Unfortunately, we're experiencing technical difficulties accessing current news data. Please check back later for updated information on these important topics.''"

definition generate_broadcast_news ::
  "world \<Rightarrow> string option \<Rightarrow> source_data \<Rightarrow> source_data \<Rightarrow> string list \<Rightarrow> string \<times> event list" where
  "generate_broadcast_news w api_key news_data reddit_data topics =
     (let full_prompt =
        system_prompt_broadcast @ nl @ nl @ user_prompt_of news_data reddit_data topics
      in case generate_content w full_prompt of
           Inr text \<Rightarrow> (text, [Gemini full_prompt])
         | Inl e \<Rightarrow> (fallback_script topics, [Gemini full_prompt]))"

section \<open>utils.py: text to speech\<close>

definition tts_to_audio :: "world \<Rightarrow> string \<Rightarrow> (exn + string) \<times> event list" where
  "tts_to_audio w text =
     (let filename = ''audio/tts_'' @ now_timestamp w @ ''.mp3''
      in case gTTS_save w text filename of
           None \<Rightarrow> (Inr filename, [TTS text])
         | Some e \<Rightarrow> (Inl (Exception (''gTTS failed: '' @ str_exn w e)), [TTS text]))"

section \<open>The module free_news_scraper\<close>

text \<open>
  The object \<open>FreeNewsScraper()\<close> with its fields \<open>api_key\<close> and \<open>base_url\<close>; the
  constructor reads the key from the environment.
\<close>

datatype FreeNewsScraper = FreeNewsScraper "string option" string

definition FreeNewsScraper_init :: "world \<Rightarrow> FreeNewsScraper" where
  "FreeNewsScraper_init w =
     FreeNewsScraper (getenv w ''NEWSAPI_KEY'') ''https://newsapi.org/v2/everything''"

text \<open>\<open>_create_mock_news\<close>.\<close>

definition mock_text :: "string \<Rightarrow> string" where
  "mock_text topic =
     ''Recent developments in '' @ topic
     @ '' continue to evolve. Industry experts are monitoring the situation closely as new information becomes available.''"

definition create_mock_news :: "string list \<Rightarrow> source_data" where
  "create_mock_news topics =
     [(''news_analysis'',
       fold (\<lambda>topic mock_news. AList.update topic (mock_text topic) mock_news) topics [])]"

text \<open>The list \<open>headlines\<close> built from the articles of one answer.\<close>

fun article_headlines :: "article list \<Rightarrow> string list" where
  "article_headlines [] = []"
| "article_headlines (a # articles) =
     (if title a \<noteq> [] then
        [if description a \<noteq> [] then title a @ ''. '' @ description a else title a]
      else [])
     @ article_headlines articles"

text \<open>
  The body of the loop over the topics: the text stored in \<open>results[topic]\<close>, whatever
  happens inside the \<open>try\<close>.
\<close>

definition scrape_topic ::
  "world \<Rightarrow> string \<Rightarrow> string \<Rightarrow> string \<Rightarrow> string \<times> event list" where
  "scrape_topic w base_url key topic =
     (case requests_get w base_url topic key of
        GetRaises e \<Rightarrow> (''Error: '' @ str_exn w e, [HttpGet topic])
      | HttpResponse status_code b \<Rightarrow>
          if status_code = 200 then
            (case b of
               BodyRaises e \<Rightarrow> (''Error: '' @ str_exn w e, [HttpGet topic])
             | Articles articles \<Rightarrow>
                 if articles \<noteq> [] then
                   (case summarize_with_gemini_news_script w (getenv w ''GEMINI_API_KEY'')
                           (join nl (article_headlines articles)) of
                      (Inr summary, ev) \<Rightarrow> (summary, HttpGet topic # ev)
                    | (Inl e, ev) \<Rightarrow> (''Error: '' @ str_exn w e, HttpGet topic # ev))
                 else (''No recent news found for '' @ topic, [HttpGet topic]))
          else if status_code = 429 then
            (''Rate limit exceeded for '' @ topic @ '' news'', [HttpGet topic])
          else (''Error fetching '' @ topic @ '' news'', [HttpGet topic]))"

fun scrape_loop ::
  "world \<Rightarrow> string \<Rightarrow> string \<Rightarrow> string list \<Rightarrow> analysis \<Rightarrow> analysis \<times> event list" where
  "scrape_loop w base_url key [] results = (results, [])"
| "scrape_loop w base_url key (topic # topics) results =
     (case scrape_topic w base_url key topic of
        (text, ev) \<Rightarrow>
          (case scrape_loop w base_url key topics (AList.update topic text results) of
             (results', ev') \<Rightarrow> (results', ev @ ev')))"

text \<open>
  \<open>FreeNewsScraper.scrape_news\<close>. Every statement that can raise is inside the \<open>try\<close> of
  the loop, so the call itself always returns a dictionary.
\<close>

fun scrape_news :: "world \<Rightarrow> FreeNewsScraper \<Rightarrow> string list \<Rightarrow> source_data \<times> event list" where
  "scrape_news w (FreeNewsScraper api_key base_url) topics =
     (case api_key of
        None \<Rightarrow> (create_mock_news topics, [])
      | Some key \<Rightarrow>
          if key = [] then (create_mock_news topics, [])
          else (case scrape_loop w base_url key topics [] of
                  (results, ev) \<Rightarrow> ([(''news_analysis'', results)], ev)))"

section \<open>backend.py\<close>

definition brightdata_eligible :: "world \<Rightarrow> bool" where
  "brightdata_eligible w \<longleftrightarrow>
     truthy (getenv w ''BRIGHTDATA_API_KEY'') \<and> truthy (getenv w ''BRIGHTDATA_WEB_UNLOCKER_ZONE'')"

definition newsapi_eligible :: "world \<Rightarrow> bool" where
  "newsapi_eligible w \<longleftrightarrow> truthy (getenv w ''NEWSAPI_KEY'')"

definition no_news_source :: exn where
  "no_news_source =
     HTTPException 503
       ''No valid news sources configured. Please set up BRIGHTDATA_API_KEY + BRIGHTDATA_WEB_UNLOCKER_ZONE or NEWSAPI_KEY''"

text \<open>
  The second and third step of \<open>get_news_data\<close>: NewsAPI when its key is set, else the
  503 error. \<open>scrape_news\<close> returns in every case, so the \<open>except\<close> around it has no
  branch here.
\<close>

definition news_after_brightdata :: "world \<Rightarrow> string list \<Rightarrow> (exn + source_data) \<times> event list" where
  "news_after_brightdata w topics =
     (if newsapi_eligible w then
        (case scrape_news w (FreeNewsScraper_init w) topics of
           (d, ev) \<Rightarrow> (Inr d, NewsAPIScrape topics # ev))
      else (Inl no_news_source, []))"

definition get_news_data :: "world \<Rightarrow> string list \<Rightarrow> (exn + source_data) \<times> event list" where
  "get_news_data w topics =
     (if brightdata_eligible w then
        (case NewsScraper_scrape_news w topics of
           Inr d \<Rightarrow> (Inr d, [BrightDataScrape topics])
         | Inl e \<Rightarrow>
             (case news_after_brightdata w topics of
                (r, ev) \<Rightarrow> (r, BrightDataScrape topics # ev)))
      else news_after_brightdata w topics)"

text \<open>The request body \<open>NewsRequest\<close>: its \<open>topics\<close> and its \<open>source_type\<close>.\<close>

datatype NewsRequest = NewsRequest "string list" string

text \<open>The answer \<open>Response(content, media_type, headers)\<close>.\<close>

datatype Response = Response string string "(string \<times> string) list"

text \<open>
  The two collection steps of \<open>generate_news_audio\<close>. Each gives the entry it stores in
  \<open>results\<close>, \<open>None\<close> when the source mode leaves the key out. Only the news step can
  raise; the Reddit step stores \<open>{}\<close> on any exception.
\<close>

definition collect_news ::
  "world \<Rightarrow> string list \<Rightarrow> string \<Rightarrow> (exn + source_data option) \<times> event list" where
  "collect_news w topics source_type =
     (if source_type \<in> set [''news'', ''both''] then
        (case get_news_data w topics of
           (Inr d, ev) \<Rightarrow> (Inr (Some d), ev)
         | (Inl e, ev) \<Rightarrow> (Inl e, ev))
      else (Inr None, []))"

definition collect_reddit ::
  "world \<Rightarrow> string list \<Rightarrow> string \<Rightarrow> source_data option \<times> event list" where
  "collect_reddit w topics source_type =
     (if source_type \<in> set [''reddit'', ''both''] then
        (case scrape_reddit_topics w topics of
           Inr d \<Rightarrow> (Some d, [RedditScrape topics])
         | Inl e \<Rightarrow> (Some [], [RedditScrape topics]))
      else (None, []))"

text \<open>From the script to the answer: the end of the \<open>try\<close> block.\<close>

definition render_audio :: "world \<Rightarrow> string \<Rightarrow> (exn + Response) \<times> event list" where
  "render_audio w news_summary =
     (case tts_to_audio w news_summary of
        (Inl e, ev) \<Rightarrow> (Inl e, ev)
      | (Inr audio_path, ev) \<Rightarrow>
          if audio_path \<noteq> [] \<and> path_exists w audio_path then
            (case read_file w audio_path of
               Inl e \<Rightarrow> (Inl e, ev)
             | Inr audio_bytes \<Rightarrow>
                 (Inr (Response audio_bytes ''audio/mpeg''
                        [(''Content-Disposition'', ''attachment; filename=news-summary.mp3'')]),
                  ev))
          else (Inl (HTTPException 500 ''Failed to generate audio file''), ev))"

text \<open>The \<open>try\<close> block of \<open>generate_news_audio\<close>.\<close>

definition generate_news_audio_try ::
  "world \<Rightarrow> string list \<Rightarrow> string \<Rightarrow> (exn + Response) \<times> event list" where
  "generate_news_audio_try w topics source_type =
     (case collect_news w topics source_type of
        (Inl e, ev1) \<Rightarrow> (Inl e, ev1)
      | (Inr news, ev1) \<Rightarrow>
          (case collect_reddit w topics source_type of
             (reddit, ev2) \<Rightarrow>
               (let news_data = (case news of None \<Rightarrow> [] | Some d \<Rightarrow> d);
                    reddit_data = (case reddit of None \<Rightarrow> [] | Some d \<Rightarrow> d)
                in if news_data = [] \<and> reddit_data = [] then
                     (Inl (HTTPException 503 ''Unable to collect any data from configured sources''),
                      ev1 @ ev2)
                   else
                     (case generate_broadcast_news w (getenv w ''GEMINI_API_KEY'')
                             news_data reddit_data topics of
                        (news_summary, ev3) \<Rightarrow>
                          if news_summary \<noteq> [] then
                            (case render_audio w news_summary of
                               (r, ev4) \<Rightarrow> (r, ev1 @ ev2 @ ev3 @ ev4))
                          else
                            (Inl (HTTPException 500 ''Failed to generate news script''),
                             ev1 @ ev2 @ ev3)))))"

text \<open>
  \<open>generate_news_audio\<close>: whatever the \<open>try\<close> block raises, an \<open>HTTPException\<close> of its
  own included, leaves as \<open>HTTPException(500, str(e))\<close>.
\<close>

fun generate_news_audio :: "world \<Rightarrow> NewsRequest \<Rightarrow> (exn + Response) \<times> event list" where
  "generate_news_audio w (NewsRequest topics source_type) =
     (case generate_news_audio_try w topics source_type of
        (Inl e, ev) \<Rightarrow> (Inl (HTTPException 500 (str_exn w e)), ev)
      | (Inr response, ev) \<Rightarrow> (Inr response, ev))"

text \<open>The dictionary \<open>health_check\<close> returns.\<close>

record health =
  status :: string
  message :: string
  news_source :: string
  features :: "string list"
  setup_instructions :: "(string \<times> string) list"

definition health_check :: "world \<Rightarrow> health" where
  "health_check w =
     (let (source, features1) =
            (if truthy (getenv w ''BRIGHTDATA_API_KEY'')
                \<and> truthy (getenv w ''BRIGHTDATA_WEB_UNLOCKER_ZONE'')
             then (''brightdata'', [''real_news_brightdata''])
             else if truthy (getenv w ''NEWSAPI_KEY'')
             then (''newsapi'', [''real_news_newsapi''])
             else (''none_configured'', [''no_news_source'']));
          features2 =
            (if truthy (getenv w ''API_TOKEN'') \<and> truthy (getenv w ''WEB_UNLOCKER_ZONE'')
             then features1 @ [''reddit_scraping''] else features1);
          features3 =
            (if truthy (getenv w ''GEMINI_API_KEY'') then features2 @ [''gemini_ai'']
             else features2);
          st = (if source \<noteq> ''none_configured'' then ''healthy'' else ''degraded'')
      in \<lparr>status = st,
          message =
            (if st = ''healthy'' then ''NewsNinja Backend is running''
             else ''NewsNinja Backend - No news sources configured''),
          news_source = source,
          features = features3,
          setup_instructions =
            [(''brightdata'',
              ''Add BRIGHTDATA_API_KEY + BRIGHTDATA_WEB_UNLOCKER_ZONE for premium news''),
             (''newsapi'', ''Add NEWSAPI_KEY for free news (100 requests/day)''),
             (''reddit'', ''Add API_TOKEN + WEB_UNLOCKER_ZONE for Reddit data'')]\<rparr>)"

section \<open>The context block in the words of the specification\<close>

text \<open>
  The text a dataset holds for a topic: the empty string when the dataset is empty, has no
  analysis, or has no entry for the topic.
\<close>

definition content_text_of :: "source_data \<Rightarrow> string \<Rightarrow> string" where
  "content_text_of news_data topic = dict_get (dict_get news_data ''news_analysis'' []) topic []"

definition discussion_text_of :: "source_data \<Rightarrow> string \<Rightarrow> string" where
  "discussion_text_of reddit_data topic =
     dict_get (dict_get reddit_data ''reddit_analysis'' []) topic []"

text \<open>An error marker is a text that starts with \<open>Error:\<close>.\<close>

definition is_error_marker :: "string \<Rightarrow> bool" where
  "is_error_marker s \<longleftrightarrow> prefix ''Error:'' s"

text \<open>
  The block of one topic as the specification words it: the content text under the official
  label when it exists and is no error marker, the discussion text under the discussion
  label when it exists, and the limited-data marker when neither is there.
\<close>

definition spec_context_block :: "string \<Rightarrow> string \<Rightarrow> string \<Rightarrow> string" where
  "spec_context_block topic content_text discussion_text =
     ''TOPIC: '' @ topic @ nl @ nl
     @ (let official =
              (if content_text \<noteq> [] \<and> \<not> is_error_marker content_text
               then [''OFFICIAL NEWS CONTENT:'' @ nl @ content_text] else []);
            discussion =
              (if discussion_text \<noteq> []
               then [''REDDIT DISCUSSION CONTENT:'' @ nl @ discussion_text] else [])
        in if official = [] \<and> discussion = []
           then ''LIMITED DATA: No current news or Reddit data available for this topic.''
           else join (nl @ nl) (official @ discussion))"

section \<open>Example worlds\<close>

text \<open>
  No variable is set; the Reddit scraper answers for every topic.
\<close>

definition world_reddit_only :: world where
  "world_reddit_only =
     \<lparr>getenv = (\<lambda>name. None),
      str_HTTPException = (\<lambda>status_code detail. detail),
      NewsScraper_scrape_news = (\<lambda>topics. Inl (Exception ''not configured'')),
      scrape_reddit_topics =
        (\<lambda>topics. Inr [(''reddit_analysis'', map (\<lambda>t. (t, ''People discuss '' @ t)) topics)]),
      requests_get = (\<lambda>base_url q key. GetRaises (Exception ''offline'')),
      generate_content = (\<lambda>prompt. Inr ''Here is the news.''),
      now_timestamp = ''20250101_120000'',
      gTTS_save = (\<lambda>text filename. None),
      path_exists = (\<lambda>path. True),
      read_file = (\<lambda>path. Inr ''ID3'')\<rparr>"

text \<open>
  All three news variables are set, the BrightData scraper and the Reddit scraper raise, and
  NewsAPI answers the topic \<open>AI\<close> with one article and every other topic with status 429.
\<close>

definition world_newsapi :: world where
  "world_newsapi =
     \<lparr>getenv =
        (\<lambda>name. if name \<in> set [''BRIGHTDATA_API_KEY'', ''BRIGHTDATA_WEB_UNLOCKER_ZONE'', ''NEWSAPI_KEY'']
                then Some ''k'' else None),
      str_HTTPException = (\<lambda>status_code detail. detail),
      NewsScraper_scrape_news = (\<lambda>topics. Inl (Exception ''zone blocked'')),
      scrape_reddit_topics = (\<lambda>topics. Inl (Exception ''reddit down'')),
      requests_get =
        (\<lambda>base_url q key.
           if q = ''AI'' then HttpResponse 200 (Articles [\<lparr>title = ''T'', description = ''D''\<rparr>])
           else HttpResponse 429 (Articles [])),
      generate_content = (\<lambda>prompt. Inr ''Summary.''),
      now_timestamp = ''20250101_120000'',
      gTTS_save = (\<lambda>text filename. None),
      path_exists = (\<lambda>path. True),
      read_file = (\<lambda>path. Inr ''ID3'')\<rparr>"

text \<open>The same, with a BrightData scraper that answers.\<close>

definition world_brightdata :: world where
  "world_brightdata =
     world_newsapi
       \<lparr>NewsScraper_scrape_news :=
          (\<lambda>topics. Inr [(''news_analysis'', map (\<lambda>t. (t, ''Headlines on '' @ t)) topics)])\<rparr>"

text \<open>The same as \<open>world_newsapi\<close>, with a Gemini client that always raises.\<close>

definition world_gemini_down :: world where
  "world_gemini_down = world_newsapi\<lparr>generate_content := (\<lambda>prompt. Inl (Exception ''quota''))\<rparr>"

section \<open>Lemmas on strings and headline extraction\<close>

declare strip_prefixes.simps [simp del]

lemma strip_prefixes_suffix: "suffix (strip_prefixes ws s) s"
proof (induction ws s rule: strip_prefixes.induct)
  case (1 ws s)
  show ?case
  proof (cases "find (\<lambda>w. w \<noteq> [] \<and> prefix w s) ws")
    case None
    then show ?thesis by (subst strip_prefixes.simps) simp
  next
    case (Some w)
    from "1.IH"[OF Some] have "suffix (strip_prefixes ws (drop (length w) s)) (drop (length w) s)" .
    then have "suffix (strip_prefixes ws (drop (length w) s)) s"
      using suffix_drop suffix_order.trans by blast
    with Some show ?thesis by (subst strip_prefixes.simps) simp
  qed
qed

lemma set_strip_prefixes: "set (strip_prefixes ws s) \<subseteq> set s"
  using strip_prefixes_suffix[of ws s] by (rule set_mono_suffix)

lemma set_strip: "set (strip s) \<subseteq> set s"
proof -
  have "set (rstrip (lstrip s)) \<subseteq> set (lstrip s)"
    using set_strip_prefixes[of "map rev whitespace" "rev (lstrip s)"] by (simp add: rstrip_def)
  also have "\<dots> \<subseteq> set s"
    by (simp add: lstrip_def set_strip_prefixes)
  finally show ?thesis by (simp add: strip_def)
qed

lemma split_on_not_Nil: "split_on c s \<noteq> []"
  by (induction s) (auto split: list.splits)

lemma split_on_no_sep: "l \<in> set (split_on c s) \<Longrightarrow> c \<notin> set l"
proof (induction s arbitrary: l)
  case Nil
  then show ?case by simp
next
  case (Cons x xs)
  then show ?case
    by (cases "split_on c xs") (auto split: if_splits)
qed

lemma join_eq_Nil: "\<forall>h \<in> set hs. h \<noteq> [] \<Longrightarrow> join sep hs = [] \<Longrightarrow> hs = []"
  by (induction sep hs rule: join.induct) auto

lemma split_on_append_no_sep:
  "c \<notin> set h \<Longrightarrow> split_on c (h @ c # rest) = h # split_on c rest"
  by (induction h) auto

lemma split_on_single: "c \<notin> set h \<Longrightarrow> split_on c h = [h]"
  by (induction h) auto

lemma split_on_join:
  "hs \<noteq> [] \<Longrightarrow> \<forall>h \<in> set hs. c \<notin> set h \<Longrightarrow> split_on c (join [c] hs) = hs"
proof (induction "[c]" hs rule: join.induct)
  case 1
  then show ?case by simp
next
  case (2 x)
  then show ?case by (simp add: split_on_single)
next
  case (3 x y ys)
  then show ?case by (simp add: split_on_append_no_sep)
qed

lemma process_lines_subset:
  "process_lines lines hs blk = (hs', blk') \<Longrightarrow>
   set hs' \<union> set blk' \<subseteq> set hs \<union> set blk \<union> {l \<in> set lines. l \<noteq> ''More''}"
proof (induction lines hs blk rule: process_lines.induct)
  case (1 headlines current_block)
  then show ?case by auto
next
  case (2 line lines headlines current_block)
  then show ?case
    by (auto split: if_splits list.splits)
qed

lemma headline_list_subset:
  "set (headline_list cleaned_text) \<subseteq> {l \<in> set (clean_lines cleaned_text). l \<noteq> ''More''}"
proof -
  obtain hs blk where p: "process_lines (clean_lines cleaned_text) [] [] = (hs, blk)"
    by (cases "process_lines (clean_lines cleaned_text) [] []")
  from process_lines_subset[OF p]
  have "set hs \<union> set blk \<subseteq> {l \<in> set (clean_lines cleaned_text). l \<noteq> ''More''}" by simp
  then show ?thesis
    by (cases blk) (auto simp: headline_list_def p)
qed

lemma clean_lines_elem:
  "l \<in> set (clean_lines cleaned_text) \<Longrightarrow>
   l \<noteq> [] \<and> CHR 0x0A \<notin> set l \<and> l \<in> strip ` set (split_on CHR 0x0A cleaned_text)"
proof -
  assume "l \<in> set (clean_lines cleaned_text)"
  then obtain x where x: "x \<in> set (split_on CHR 0x0A cleaned_text)" "l = strip x" "strip x \<noteq> []"
    by (auto simp: clean_lines_def)
  have "CHR 0x0A \<notin> set x" using x(1) by (rule split_on_no_sep)
  then have "CHR 0x0A \<notin> set l" using set_strip[of x] x(2) by auto
  with x show ?thesis by auto
qed

section \<open>Headline extraction\<close>

text \<open>
  C6. On the input \<open>H1\nH1b\nMore\nH2\nMore\nMore\<close> headline extraction returns
  \<open>H1\nH2\<close>: each \<open>More\<close> line emits the first line of the block before it, the
  second \<open>More\<close> in a row finds an empty block and emits nothing. A lone \<open>More\<close> gives
  the empty output, and a block that no \<open>More\<close> closes is flushed at the end of input.
\<close>

theorem extract_headlines_example:
  "extract_headlines
     (''H1'' @ nl @ ''H1b'' @ nl @ ''More'' @ nl @ ''H2'' @ nl @ ''More'' @ nl @ ''More'')
     = ''H1'' @ nl @ ''H2''
   \<and> extract_headlines ''More'' = []
   \<and> extract_headlines (''H1'' @ nl @ ''More'' @ nl @ ''H2'' @ nl @ ''H2b'') = ''H1'' @ nl @ ''H2''"
  by code_simp

text \<open>
  C9. For every input, each headline is non-empty, differs from \<open>More\<close> and is the
  stripped form of a line of the input; the output is the headlines joined by line feeds,
  and, unless it is empty (no headline at all), its lines are exactly the headlines, so
  none of them is empty or the sentinel.
\<close>

theorem extract_headlines_lines:
  "(\<forall>h \<in> set (headline_list cleaned_text).
      h \<noteq> [] \<and> h \<noteq> ''More'' \<and> h \<in> strip ` set (split_on CHR 0x0A cleaned_text))
   \<and> extract_headlines cleaned_text = join nl (headline_list cleaned_text)
   \<and> (if extract_headlines cleaned_text = [] then headline_list cleaned_text = []
      else split_on CHR 0x0A (extract_headlines cleaned_text) = headline_list cleaned_text)"
proof -
  define hs where "hs = headline_list cleaned_text"
  have out: "extract_headlines cleaned_text = join nl hs"
    by (simp only: extract_headlines_def hs_def)
  have elems: "h \<noteq> [] \<and> h \<noteq> ''More'' \<and> CHR 0x0A \<notin> set h
                \<and> h \<in> strip ` set (split_on CHR 0x0A cleaned_text)" if "h \<in> set hs" for h
  proof -
    from that have "h \<in> set (clean_lines cleaned_text)" and "h \<noteq> ''More''"
      using headline_list_subset[of cleaned_text] unfolding hs_def by blast+
    then show ?thesis using clean_lines_elem[of h cleaned_text] by blast
  qed
  have ne: "\<forall>h \<in> set hs. h \<noteq> []" using elems by blast
  have nosep: "\<forall>h \<in> set hs. CHR 0x0A \<notin> set h" using elems by blast
  have empty: "hs = []" if "join nl hs = []"
    using ne that by (rule join_eq_Nil)
  have lines: "split_on CHR 0x0A (join nl hs) = hs" if "join nl hs \<noteq> []"
  proof -
    from that have "hs \<noteq> []" by auto
    then show ?thesis using nosep by (rule split_on_join)
  qed
  have "\<forall>h \<in> set hs. h \<noteq> [] \<and> h \<noteq> ''More'' \<and> h \<in> strip ` set (split_on CHR 0x0A cleaned_text)"
    using elems by blast
  moreover have "if join nl hs = [] then hs = [] else split_on CHR 0x0A (join nl hs) = hs"
    using empty lines by (cases "join nl hs = []") simp_all
  ultimately show ?thesis
    unfolding out unfolding hs_def[symmetric] by blast
qed


theorem extract_headlines_lines_witness:
  "headline_list (''  Top story '' @ nl @ nl @ ''More'' @ nl @ ''More'' @ nl @ ''Second'')
     = [''Top story'', ''Second'']
   \<and> ''Top story'' \<in> strip ` set (split_on CHR 0x0A
         (''  Top story '' @ nl @ nl @ ''More'' @ nl @ ''More'' @ nl @ ''Second''))
   \<and> ''Second'' \<in> strip ` set (split_on CHR 0x0A
         (''  Top story '' @ nl @ nl @ ''More'' @ nl @ ''More'' @ nl @ ''Second''))
   \<and> split_on CHR 0x0A
        (extract_headlines (''  Top story '' @ nl @ nl @ ''More'' @ nl @ ''More'' @ nl @ ''Second''))
       = [''Top story'', ''Second'']"
proof -
  define input where
    "input = ''  Top story '' @ nl @ nl @ ''More'' @ nl @ ''More'' @ nl @ ''Second''"
  have hl: "headline_list input = [''Top story'', ''Second'']"
    unfolding input_def by code_simp
  have out: "extract_headlines input \<noteq> []"
    unfolding input_def by code_simp
  show ?thesis
    using extract_headlines_lines[of input] out
    unfolding hl input_def[symmetric] by simp
qed

section \<open>Lemmas on dictionaries and the scraper\<close>

lemma fold_update_map_of:
  "map_of (fold (\<lambda>t. AList.update t (f t)) ts al) k =
     (if k \<in> set ts then Some (f k) else map_of al k)"
  by (induction ts arbitrary: al) (auto simp: update_conv')

lemma fold_update_distinct:
  "distinct (map fst al) \<Longrightarrow> distinct (map fst (fold (\<lambda>t. AList.update t (f t)) ts al))"
  by (induction ts arbitrary: al) (auto simp: distinct_update)

lemma fold_update_keys:
  "map fst (fold (\<lambda>t. AList.update t (f t)) ts al) =
     fold (\<lambda>t ks. if t \<in> set ks then ks else ks @ [t]) ts (map fst al)"
  by (induction ts arbitrary: al) (auto simp: update_keys)

lemma fold_update_key_set:
  "set (map fst (fold (\<lambda>t. AList.update t (f t)) ts al)) = set (map fst al) \<union> set ts"
proof -
  have "dom (map_of (fold (\<lambda>t. AList.update t (f t)) ts al)) = dom (map_of al) \<union> set ts"
    by (auto simp: fold_update_map_of dom_def)
  then show ?thesis by (simp add: dom_map_of_conv_image_fst)
qed

lemma scrape_loop_fold:
  "fst (scrape_loop w base_url key topics results) =
     fold (\<lambda>t. AList.update t (fst (scrape_topic w base_url key t))) topics results"
  by (induction topics arbitrary: results) (simp_all add: case_prod_beta)

lemma scrape_news_with_key:
  "key \<noteq> [] \<Longrightarrow>
   fst (scrape_news w (FreeNewsScraper (Some key) base_url) topics) =
     [(''news_analysis'',
       fold (\<lambda>t. AList.update t (fst (scrape_topic w base_url key t))) topics [])]"
  using scrape_loop_fold[of w base_url key topics "[]"]
  by (simp add: case_prod_beta)

lemma scrape_news_mock:
  "\<not> truthy api_key \<Longrightarrow>
   scrape_news w (FreeNewsScraper api_key base_url) topics = (create_mock_news topics, [])"
  by (cases api_key) (auto simp: truthy_def)

lemma sublist_join: "t \<in> set ts \<Longrightarrow> sublist t (join sep ts)"
proof (induction sep ts rule: join.induct)
  case (1 sep)
  then show ?case by simp
next
  case (2 sep x)
  then show ?case by simp
next
  case (3 sep x y ys)
  show ?case
  proof (cases "t = x")
    case True
    then show ?thesis by simp
  next
    case False
    with 3 have "sublist t (join sep (y # ys))" by simp
    then obtain ps ss where "join sep (y # ys) = ps @ t @ ss"
      by (auto simp: sublist_def)
    then have "join sep (x # y # ys) = (x @ sep @ ps) @ t @ ss" by simp
    then show ?thesis unfolding sublist_def by blast
  qed
qed

section \<open>The free news scraper\<close>

text \<open>
  C4. For every topic list, \<open>FreeNewsScraper.scrape_news\<close> returns a dictionary whose
  \<open>news_analysis\<close> has exactly one entry per requested topic, whatever happens for each
  topic: the summary when the fetch and the summarizer succeed, and else a stub text (no
  articles, rate limit, other status, or \<open>Error:\<close> with the text of the exception).
\<close>

theorem scrape_news_one_entry_per_topic:
  "\<exists>results.
     fst (scrape_news w (FreeNewsScraper api_key base_url) topics) = [(''news_analysis'', results)]
     \<and> distinct (map fst results) \<and> set (map fst results) = set topics
     \<and> (\<forall>topic \<in> set topics. \<exists>v. map_of results topic = Some v \<and>
          (case api_key of
             None \<Rightarrow> v = mock_text topic
           | Some key \<Rightarrow>
               if key = [] then v = mock_text topic
               else
                 (case requests_get w base_url topic key of
                    GetRaises e \<Rightarrow> v = ''Error: '' @ str_exn w e
                  | HttpResponse status_code b \<Rightarrow>
                      if status_code = 200 then
                        (case b of
                           BodyRaises e \<Rightarrow> v = ''Error: '' @ str_exn w e
                         | Articles articles \<Rightarrow>
                             if articles = [] then v = ''No recent news found for '' @ topic
                             else
                               (case fst (summarize_with_gemini_news_script w
                                            (getenv w ''GEMINI_API_KEY'')
                                            (join nl (article_headlines articles))) of
                                  Inr summary \<Rightarrow> v = summary
                                | Inl e \<Rightarrow> v = ''Error: '' @ str_exn w e))
                      else if status_code = 429 then
                        v = ''Rate limit exceeded for '' @ topic @ '' news''
                      else v = ''Error fetching '' @ topic @ '' news'')))"
proof (cases "truthy api_key")
  case False
  define results where "results = fold (\<lambda>t. AList.update t (mock_text t)) topics []"
  have "scrape_news w (FreeNewsScraper api_key base_url) topics = (create_mock_news topics, [])"
    using False by (rule scrape_news_mock)
  then have r: "fst (scrape_news w (FreeNewsScraper api_key base_url) topics)
                  = [(''news_analysis'', results)]"
    by (simp add: create_mock_news_def results_def)
  have d: "distinct (map fst results)"
    unfolding results_def by (rule fold_update_distinct) simp
  have k: "set (map fst results) = set topics"
    unfolding results_def by (simp only: fold_update_key_set) simp
  have v: "map_of results topic = Some (mock_text topic)" if "topic \<in> set topics" for topic
    unfolding results_def using that by (simp add: fold_update_map_of)
  have n: "api_key = None \<or> api_key = Some []"
    using False by (cases api_key) (simp_all add: truthy_def)
  show ?thesis
    apply (rule exI[of _ results])
    apply (intro conjI ballI)
       apply (rule r)
      apply (rule d)
     apply (rule k)
    subgoal for topic
      apply (rule exI[of _ "mock_text topic"])
      apply (rule conjI)
       apply (erule v)
      using n apply (elim disjE)
       apply simp_all
      done
    done
next
  case True
  then obtain key where key: "api_key = Some key" "key \<noteq> []"
    by (cases api_key) (auto simp: truthy_def)
  define results where
    "results = fold (\<lambda>t. AList.update t (fst (scrape_topic w base_url key t))) topics []"
  have r: "fst (scrape_news w (FreeNewsScraper api_key base_url) topics)
             = [(''news_analysis'', results)]"
    unfolding results_def key(1) using key(2) by (rule scrape_news_with_key)
  have d: "distinct (map fst results)"
    unfolding results_def by (rule fold_update_distinct) simp
  have k: "set (map fst results) = set topics"
    unfolding results_def by (simp only: fold_update_key_set) simp
  have v: "map_of results topic = Some (fst (scrape_topic w base_url key topic))"
    if "topic \<in> set topics" for topic
    unfolding results_def using that by (simp add: fold_update_map_of)
  show ?thesis
    apply (rule exI[of _ results])
    apply (intro conjI ballI)
       apply (rule r)
      apply (rule d)
     apply (rule k)
    subgoal for topic
      apply (rule exI[of _ "fst (scrape_topic w base_url key topic)"])
      apply (rule conjI)
       apply (erule v)
      using key
      apply (simp add: scrape_topic_def
               split: http_outcome.splits body.splits prod.splits sum.splits)
      done
    done
qed

theorem scrape_news_one_entry_per_topic_witness:
  "fst (scrape_news world_newsapi (FreeNewsScraper (Some ''k'') ''u'') [''AI'', ''Climate'', ''AI''])
     = [(''news_analysis'',
         [(''AI'', ''Summary.''), (''Climate'', ''Rate limit exceeded for Climate news'')])]
   \<and> (\<exists>results.
        fst (scrape_news world_newsapi (FreeNewsScraper (Some ''k'') ''u'') [''AI'', ''Climate'', ''AI''])
          = [(''news_analysis'', results)]
        \<and> distinct (map fst results) \<and> set (map fst results) = {''AI'', ''Climate''}
        \<and> (\<forall>topic \<in> {''AI'', ''Climate''}. \<exists>v. map_of results topic = Some v))"
proof
  show "fst (scrape_news world_newsapi (FreeNewsScraper (Some ''k'') ''u'') [''AI'', ''Climate'', ''AI''])
     = [(''news_analysis'',
         [(''AI'', ''Summary.''), (''Climate'', ''Rate limit exceeded for Climate news'')])]"
    by code_simp
  obtain results where
    "fst (scrape_news world_newsapi (FreeNewsScraper (Some ''k'') ''u'') [''AI'', ''Climate'', ''AI''])
       = [(''news_analysis'', results)]"
    "distinct (map fst results)"
    "set (map fst results) = set [''AI'', ''Climate'', ''AI'']"
    "\<forall>topic \<in> set [''AI'', ''Climate'', ''AI'']. \<exists>v. map_of results topic = Some v"
    using scrape_news_one_entry_per_topic
            [of world_newsapi "Some ''k''" "''u''" "[''AI'', ''Climate'', ''AI'']"]
    by blast
  then show "\<exists>results.
        fst (scrape_news world_newsapi (FreeNewsScraper (Some ''k'') ''u'') [''AI'', ''Climate'', ''AI''])
          = [(''news_analysis'', results)]
        \<and> distinct (map fst results) \<and> set (map fst results) = {''AI'', ''Climate''}
        \<and> (\<forall>topic \<in> {''AI'', ''Climate''}. \<exists>v. map_of results topic = Some v)"
    by auto
qed

text \<open>
  C10. When \<open>NEWSAPI_KEY\<close> is absent (or empty) as the scraper is created and called,
  \<open>scrape_news\<close> returns without any outside call (its event list is empty) a dictionary
  whose \<open>news_analysis\<close> maps each requested topic to the placeholder paragraph, which is
  non-empty and contains the topic; a real result of any keyed scraper for the same topics
  has the same single outer key and the same topic keys in the same order.
\<close>

theorem scrape_news_without_key:
  assumes "\<not> truthy (getenv w ''NEWSAPI_KEY'')"
  shows "\<exists>mock_news.
     scrape_news w (FreeNewsScraper_init w) topics = ([(''news_analysis'', mock_news)], [])
     \<and> distinct (map fst mock_news) \<and> set (map fst mock_news) = set topics
     \<and> (\<forall>topic \<in> set topics.
           map_of mock_news topic = Some (mock_text topic)
           \<and> mock_text topic \<noteq> [] \<and> sublist topic (mock_text topic))
     \<and> (\<forall>w' key base_url. key \<noteq> [] \<longrightarrow>
           (\<exists>results.
              fst (scrape_news w' (FreeNewsScraper (Some key) base_url) topics)
                = [(''news_analysis'', results)]
              \<and> map fst results = map fst mock_news))"
proof -
  define mock_news where "mock_news = fold (\<lambda>t. AList.update t (mock_text t)) topics []"
  have r: "scrape_news w (FreeNewsScraper_init w) topics = ([(''news_analysis'', mock_news)], [])"
    using assms scrape_news_mock[of "getenv w ''NEWSAPI_KEY''" w _ topics]
    by (simp add: FreeNewsScraper_init_def create_mock_news_def mock_news_def)
  have d: "distinct (map fst mock_news)"
    unfolding mock_news_def by (rule fold_update_distinct) simp
  have k: "set (map fst mock_news) = set topics"
    unfolding mock_news_def by (simp only: fold_update_key_set) simp
  have v: "map_of mock_news topic = Some (mock_text topic)" if "topic \<in> set topics" for topic
    unfolding mock_news_def using that by (simp add: fold_update_map_of)
  have m: "mock_text topic \<noteq> [] \<and> sublist topic (mock_text topic)" for topic
  proof
    show "mock_text topic \<noteq> []" by (simp add: mock_text_def)
    show "sublist topic (mock_text topic)" unfolding mock_text_def by (rule sublist_appendI)
  qed
  have s: "\<exists>results.
              fst (scrape_news w' (FreeNewsScraper (Some key) base_url) topics)
                = [(''news_analysis'', results)]
              \<and> map fst results = map fst mock_news" if "key \<noteq> []" for w' key base_url
    using scrape_news_with_key[OF that, of w' base_url topics]
    by (simp add: mock_news_def fold_update_keys)
  show ?thesis using r d k v m s by blast
qed

theorem scrape_news_without_key_witness:
  "\<not> truthy (getenv world_reddit_only ''NEWSAPI_KEY'')
   \<and> scrape_news world_reddit_only (FreeNewsScraper_init world_reddit_only) [''AI'', ''Climate'']
       = ([(''news_analysis'', [(''AI'', mock_text ''AI''), (''Climate'', mock_text ''Climate'')])], [])
   \<and> (\<exists>mock_news.
        scrape_news world_reddit_only (FreeNewsScraper_init world_reddit_only) [''AI'', ''Climate'']
          = ([(''news_analysis'', mock_news)], [])
        \<and> (\<forall>topic \<in> {''AI'', ''Climate''}.
              map_of mock_news topic = Some (mock_text topic) \<and> sublist topic (mock_text topic)))"
proof -
  have h: "\<not> truthy (getenv world_reddit_only ''NEWSAPI_KEY'')"
    by (simp add: truthy_def world_reddit_only_def)
  have e: "scrape_news world_reddit_only (FreeNewsScraper_init world_reddit_only) [''AI'', ''Climate'']
       = ([(''news_analysis'', [(''AI'', mock_text ''AI''), (''Climate'', mock_text ''Climate'')])], [])"
    by code_simp
  obtain mock_news where
    "scrape_news world_reddit_only (FreeNewsScraper_init world_reddit_only) [''AI'', ''Climate'']
          = ([(''news_analysis'', mock_news)], [])"
    "\<forall>topic \<in> set [''AI'', ''Climate''].
        map_of mock_news topic = Some (mock_text topic)
        \<and> mock_text topic \<noteq> [] \<and> sublist topic (mock_text topic)"
    using scrape_news_without_key[OF h, of "[''AI'', ''Climate'']"] by blast
  then have "\<exists>mock_news.
        scrape_news world_reddit_only (FreeNewsScraper_init world_reddit_only) [''AI'', ''Climate'']
          = ([(''news_analysis'', mock_news)], [])
        \<and> (\<forall>topic \<in> {''AI'', ''Climate''}.
              map_of mock_news topic = Some (mock_text topic) \<and> sublist topic (mock_text topic))"
    by auto
  with h e show ?thesis by blast
qed

section \<open>The summarizer\<close>

text \<open>
  C5. For every topic list and every pair of datasets, if the Gemini call on the prompt
  raises, \<open>generate_broadcast_news\<close> returns the fallback script, which is non-empty and
  contains every requested topic. The function returns a string in every case.
\<close>

theorem generate_broadcast_news_fallback:
  assumes "generate_content w
             (system_prompt_broadcast @ nl @ nl @ user_prompt_of news_data reddit_data topics)
           = Inl e"
  shows "fst (generate_broadcast_news w api_key news_data reddit_data topics) = fallback_script topics
     \<and> fallback_script topics \<noteq> []
     \<and> (\<forall>topic \<in> set topics. sublist topic (fallback_script topics))"
proof -
  have "fst (generate_broadcast_news w api_key news_data reddit_data topics) = fallback_script topics"
    using assms by (simp add: generate_broadcast_news_def)
  moreover have "fallback_script topics \<noteq> []"
    by (simp add: fallback_script_def)
  moreover have "sublist topic (fallback_script topics)" if "topic \<in> set topics" for topic
  proof -
    from that have "sublist topic (join '', '' topics)" by (rule sublist_join)
    moreover have "sublist (join '', '' topics) (fallback_script topics)"
      unfolding fallback_script_def by (rule sublist_appendI)
    ultimately show ?thesis by (rule sublist_order.order.trans)
  qed
  ultimately show ?thesis by blast
qed

theorem generate_broadcast_news_fallback_witness:
  "generate_content world_gemini_down
     (system_prompt_broadcast @ nl @ nl
      @ user_prompt_of [(''news_analysis'', [(''AI'', ''Summary.'')])] [] [''AI'', ''Climate''])
     = Inl (Exception ''quota'')
   \<and> fst (generate_broadcast_news world_gemini_down None
            [(''news_analysis'', [(''AI'', ''Summary.'')])] [] [''AI'', ''Climate''])
       = fallback_script [''AI'', ''Climate'']
   \<and> fallback_script [''AI'', ''Climate''] \<noteq> []
   \<and> sublist ''AI'' (fallback_script [''AI'', ''Climate''])
   \<and> sublist ''Climate'' (fallback_script [''AI'', ''Climate''])"
proof -
  have h: "generate_content world_gemini_down
     (system_prompt_broadcast @ nl @ nl
      @ user_prompt_of [(''news_analysis'', [(''AI'', ''Summary.'')])] [] [''AI'', ''Climate''])
     = Inl (Exception ''quota'')"
    by (simp add: world_gemini_down_def)
  show ?thesis
    using h generate_broadcast_news_fallback[OF h, of None] by simp
qed

section \<open>Lemmas on the prompt and the request\<close>

lemma news_content_of_alt:
  "news_content_of news_data topic =
     (if is_error_marker (content_text_of news_data topic) then []
      else content_text_of news_data topic)"
  by (cases news_data)
     (auto simp: news_content_of_def content_text_of_def is_error_marker_def dict_get_def Let_def
           split: option.splits)

lemma reddit_content_of_alt:
  "reddit_content_of reddit_data topic = discussion_text_of reddit_data topic"
  by (cases reddit_data)
     (auto simp: reddit_content_of_def discussion_text_of_def dict_get_def split: option.splits)

lemma topic_block_spec:
  "topic_block news_data reddit_data topic =
     spec_context_block topic (content_text_of news_data topic)
       (discussion_text_of reddit_data topic)"
  by (simp add: topic_block_def topic_context_def spec_context_block_def Let_def
        news_content_of_alt reddit_content_of_alt)

lemma render_audio_events: "snd (render_audio w script) = [TTS script]"
  by (simp add: render_audio_def tts_to_audio_def Let_def split: option.splits sum.splits)

lemma generate_broadcast_news_events:
  "snd (generate_broadcast_news w api_key news_data reddit_data topics) =
     [Gemini (system_prompt_broadcast @ nl @ nl @ user_prompt_of news_data reddit_data topics)]"
  by (simp add: generate_broadcast_news_def Let_def split: sum.splits)

lemma collect_reddit_both:
  "collect_reddit w topics ''both'' =
     (Some (case scrape_reddit_topics w topics of Inr d \<Rightarrow> d | Inl e \<Rightarrow> []), [RedditScrape topics])"
  by (simp add: collect_reddit_def split: sum.splits)

lemma news_exhausted:
  "\<not> brightdata_eligible w \<or> (\<exists>e. NewsScraper_scrape_news w topics = Inl e) \<Longrightarrow>
   \<not> newsapi_eligible w \<Longrightarrow>
   get_news_data w topics =
     (Inl no_news_source, if brightdata_eligible w then [BrightDataScrape topics] else [])"
  by (auto simp: get_news_data_def news_after_brightdata_def)

lemma try_news_raises:
  "source_type \<in> {''news'', ''both''} \<Longrightarrow> get_news_data w topics = (Inl e, ev1) \<Longrightarrow>
   generate_news_audio_try w topics source_type = (Inl e, ev1)"
  by (auto simp: generate_news_audio_try_def collect_news_def)

lemma try_both_collected:
  assumes "get_news_data w topics = (Inr nd, ev1)"
    and "rd = (case scrape_reddit_topics w topics of Inr d \<Rightarrow> d | Inl e \<Rightarrow> [])"
  shows "generate_news_audio_try w topics ''both'' =
     (if nd = [] \<and> rd = [] then
        (Inl (HTTPException 503 ''Unable to collect any data from configured sources''),
         ev1 @ [RedditScrape topics])
      else
        (let script = fst (generate_broadcast_news w (getenv w ''GEMINI_API_KEY'') nd rd topics);
             prompt = system_prompt_broadcast @ nl @ nl @ user_prompt_of nd rd topics
         in if script \<noteq> [] then
              (fst (render_audio w script),
               ev1 @ [RedditScrape topics, Gemini prompt, TTS script])
            else
              (Inl (HTTPException 500 ''Failed to generate news script''),
               ev1 @ [RedditScrape topics, Gemini prompt])))"
proof -
  obtain script ev3 where g:
    "generate_broadcast_news w (getenv w ''GEMINI_API_KEY'') nd rd topics = (script, ev3)"
    by (cases "generate_broadcast_news w (getenv w ''GEMINI_API_KEY'') nd rd topics")
  have ev3: "ev3 = [Gemini (system_prompt_broadcast @ nl @ nl @ user_prompt_of nd rd topics)]"
    using generate_broadcast_news_events[of w "getenv w ''GEMINI_API_KEY''" nd rd topics] g by simp
  obtain r ev4 where ra: "render_audio w script = (r, ev4)"
    by (cases "render_audio w script")
  have ev4: "ev4 = [TTS script]"
    using render_audio_events[of w script] ra by simp
  have c: "collect_news w topics ''both'' = (Inr (Some nd), ev1)"
    using assms(1) by (simp add: collect_news_def)
  show ?thesis
    unfolding generate_news_audio_try_def c collect_reddit_both assms(2)[symmetric]
    by (simp add: g ra ev3 ev4 Let_def)
qed

section \<open>The prompt of the summarizer\<close>

text \<open>
  C7. The prompt-building step makes one block per requested topic, in order, and each is
  the block of the specification: the content text under the official label exactly when
  it is non-empty and does not start with \<open>Error:\<close>, the discussion text under the
  discussion label exactly when it is non-empty, and the limited-data marker when neither
  contributes. For a non-empty topic list the user prompt is the blocks joined by the
  separator, and the prompt sent to Gemini ends with it.
\<close>

theorem topic_blocks_follow_spec:
  "topic_blocks news_data reddit_data topics =
     map (\<lambda>topic. spec_context_block topic (content_text_of news_data topic)
                    (discussion_text_of reddit_data topic)) topics
   \<and> user_prompt_of news_data reddit_data topics =
       (if topics = [] then
          ''Create a brief news segment explaining that current data for topics ''
          @ '' is temporarily unavailable, but provide general context about why these topics are newsworthy.''
        else ''Create broadcast segments for these topics using available sources:'' @ nl @ nl
             @ join (nl @ nl @ ''--- NEW TOPIC ---'' @ nl @ nl)
                 (topic_blocks news_data reddit_data topics))
   \<and> snd (generate_broadcast_news w api_key news_data reddit_data topics) =
       [Gemini (system_prompt_broadcast @ nl @ nl @ user_prompt_of news_data reddit_data topics)]"
proof (intro conjI)
  show "topic_blocks news_data reddit_data topics =
     map (\<lambda>topic. spec_context_block topic (content_text_of news_data topic)
                    (discussion_text_of reddit_data topic)) topics"
    by (simp add: topic_blocks_def topic_block_spec)
  show "user_prompt_of news_data reddit_data topics =
       (if topics = [] then
          ''Create a brief news segment explaining that current data for topics ''
          @ '' is temporarily unavailable, but provide general context about why these topics are newsworthy.''
        else ''Create broadcast segments for these topics using available sources:'' @ nl @ nl
             @ join (nl @ nl @ ''--- NEW TOPIC ---'' @ nl @ nl)
                 (topic_blocks news_data reddit_data topics))"
    by (cases topics) (simp_all add: user_prompt_of_def topic_blocks_def Let_def)
  show "snd (generate_broadcast_news w api_key news_data reddit_data topics) =
       [Gemini (system_prompt_broadcast @ nl @ nl @ user_prompt_of news_data reddit_data topics)]"
    by (rule generate_broadcast_news_events)
qed

theorem topic_blocks_follow_spec_witness:
  "topic_blocks
     [(''news_analysis'', [(''AI'', ''Summary.''), (''Climate'', ''Error: timeout'')])]
     [(''reddit_analysis'', [(''AI'', ''People discuss AI'')])]
     [''AI'', ''Climate'']
   = [''TOPIC: AI'' @ nl @ nl @ ''OFFICIAL NEWS CONTENT:'' @ nl @ ''Summary.'' @ nl @ nl
        @ ''REDDIT DISCUSSION CONTENT:'' @ nl @ ''People discuss AI'',
      ''TOPIC: Climate'' @ nl @ nl
        @ ''LIMITED DATA: No current news or Reddit data available for this topic.'']"
proof -
  have "map (\<lambda>topic. spec_context_block topic
               (content_text_of
                  [(''news_analysis'', [(''AI'', ''Summary.''), (''Climate'', ''Error: timeout'')])]
                  topic)
               (discussion_text_of [(''reddit_analysis'', [(''AI'', ''People discuss AI'')])] topic))
          [''AI'', ''Climate'']
   = [''TOPIC: AI'' @ nl @ nl @ ''OFFICIAL NEWS CONTENT:'' @ nl @ ''Summary.'' @ nl @ nl
        @ ''REDDIT DISCUSSION CONTENT:'' @ nl @ ''People discuss AI'',
      ''TOPIC: Climate'' @ nl @ nl
        @ ''LIMITED DATA: No current news or Reddit data available for this topic.'']"
    by code_simp
  then show ?thesis
    using topic_blocks_follow_spec
            [of "[(''news_analysis'', [(''AI'', ''Summary.''), (''Climate'', ''Error: timeout'')])]"
                "[(''reddit_analysis'', [(''AI'', ''People discuss AI'')])]"
                "[''AI'', ''Climate'']"]
    by simp
qed

section \<open>The status query\<close>

text \<open>
  C8. The status query reports the news source \<open>brightdata\<close> when both BrightData
  variables are set, \<open>newsapi\<close> when that is not so and the NewsAPI key is set, and
  \<open>none_configured\<close> otherwise; it lists \<open>reddit_scraping\<close> exactly when both Reddit
  variables are set; and its status is \<open>healthy\<close> exactly when a news source is
  configured, and \<open>degraded\<close> otherwise. A variable is set when \<open>os.getenv\<close> gives a
  true value for it, that is a non-empty string; the conditions are the ones
  \<open>get_news_data\<close> tests.
\<close>

theorem health_check_reports:
  "news_source (health_check w) =
     (if brightdata_eligible w then ''brightdata''
      else if newsapi_eligible w then ''newsapi'' else ''none_configured'')
   \<and> (''reddit_scraping'' \<in> set (features (health_check w)) \<longleftrightarrow>
        truthy (getenv w ''API_TOKEN'') \<and> truthy (getenv w ''WEB_UNLOCKER_ZONE''))
   \<and> status (health_check w) =
       (if brightdata_eligible w \<or> newsapi_eligible w then ''healthy'' else ''degraded'')
   \<and> (status (health_check w) = ''healthy'' \<longleftrightarrow>
        news_source (health_check w) \<noteq> ''none_configured'')"
  by (simp add: health_check_def brightdata_eligible_def newsapi_eligible_def Let_def)


theorem health_check_reports_witness:
  "news_source (health_check world_reddit_only) = ''none_configured''
   \<and> status (health_check world_reddit_only) = ''degraded''
   \<and> news_source (health_check world_newsapi) = ''brightdata''
   \<and> status (health_check world_newsapi) = ''healthy''
   \<and> ''reddit_scraping'' \<notin> set (features (health_check world_newsapi))"
proof -
  have x: "\<not> brightdata_eligible world_reddit_only" "\<not> newsapi_eligible world_reddit_only"
    by (simp_all add: brightdata_eligible_def newsapi_eligible_def truthy_def world_reddit_only_def)
  have y: "brightdata_eligible world_newsapi" "\<not> truthy (getenv world_newsapi ''API_TOKEN'')"
    by (simp_all add: brightdata_eligible_def truthy_def world_newsapi_def)
  have "news_source (health_check world_reddit_only) = ''none_configured''"
    using health_check_reports[of world_reddit_only, THEN conjunct1] x by simp
  moreover have "status (health_check world_reddit_only) = ''degraded''"
    using health_check_reports[of world_reddit_only, THEN conjunct2, THEN conjunct2, THEN conjunct1] x
    by simp
  moreover have "news_source (health_check world_newsapi) = ''brightdata''"
    using health_check_reports[of world_newsapi, THEN conjunct1] y by simp
  moreover have "status (health_check world_newsapi) = ''healthy''"
    using health_check_reports[of world_newsapi, THEN conjunct2, THEN conjunct2, THEN conjunct1] y
    by simp
  moreover have "''reddit_scraping'' \<notin> set (features (health_check world_newsapi))"
    using health_check_reports[of world_newsapi, THEN conjunct2, THEN conjunct1] y by simp
  ultimately show ?thesis by blast
qed

section \<open>The order of the news providers\<close>

text \<open>
  C2. When BrightData is eligible and its scraper returns, \<open>get_news_data\<close> returns that
  result and its only outside call is the BrightData one: NewsAPI is not invoked. When
  NewsAPI is invoked, its key is set, and either BrightData is ineligible and NewsAPI is
  the first call, or BrightData was called first and raised.
\<close>

theorem brightdata_before_newsapi:
  "(brightdata_eligible w \<and> NewsScraper_scrape_news w topics = Inr d \<longrightarrow>
      get_news_data w topics = (Inr d, [BrightDataScrape topics])
      \<and> (\<forall>ev \<in> set (snd (get_news_data w topics)). ev = BrightDataScrape topics))
   \<and> (NewsAPIScrape ts \<in> set (snd (get_news_data w topics)) \<longrightarrow>
        newsapi_eligible w
        \<and> (if brightdata_eligible w then
              (\<exists>e. NewsScraper_scrape_news w topics = Inl e)
              \<and> take 2 (snd (get_news_data w topics)) = [BrightDataScrape topics, NewsAPIScrape topics]
            else take 1 (snd (get_news_data w topics)) = [NewsAPIScrape topics]))"
proof (intro conjI impI)
  assume "brightdata_eligible w \<and> NewsScraper_scrape_news w topics = Inr d"
  then show "get_news_data w topics = (Inr d, [BrightDataScrape topics])"
    by (simp add: get_news_data_def)
  then show "\<forall>ev \<in> set (snd (get_news_data w topics)). ev = BrightDataScrape topics"
    by simp
next
  assume a: "NewsAPIScrape ts \<in> set (snd (get_news_data w topics))"
  show "newsapi_eligible w"
  proof (rule ccontr)
    assume "\<not> newsapi_eligible w"
    then have "set (snd (get_news_data w topics)) \<subseteq> {BrightDataScrape topics}"
      by (auto simp: get_news_data_def news_after_brightdata_def split: sum.splits)
    with a show False by auto
  qed
  then have n: "news_after_brightdata w topics =
      (Inr (fst (scrape_news w (FreeNewsScraper_init w) topics)),
       NewsAPIScrape topics # snd (scrape_news w (FreeNewsScraper_init w) topics))"
    by (simp add: news_after_brightdata_def case_prod_beta)
  show "if brightdata_eligible w then
              (\<exists>e. NewsScraper_scrape_news w topics = Inl e)
              \<and> take 2 (snd (get_news_data w topics)) = [BrightDataScrape topics, NewsAPIScrape topics]
            else take 1 (snd (get_news_data w topics)) = [NewsAPIScrape topics]"
  proof (cases "brightdata_eligible w")
    case False
    then show ?thesis by (simp add: get_news_data_def n)
  next
    case True
    show ?thesis
    proof (cases "NewsScraper_scrape_news w topics")
      case (Inl e)
      with True show ?thesis by (simp add: get_news_data_def n)
    next
      case (Inr d)
      with True have "snd (get_news_data w topics) = [BrightDataScrape topics]"
        by (simp add: get_news_data_def)
      with a show ?thesis by simp
    qed
  qed
qed

theorem brightdata_before_newsapi_witness:
  "(brightdata_eligible world_brightdata
    \<and> NewsScraper_scrape_news world_brightdata [''AI'']
        = Inr [(''news_analysis'', [(''AI'', ''Headlines on AI'')])]
    \<and> get_news_data world_brightdata [''AI'']
        = (Inr [(''news_analysis'', [(''AI'', ''Headlines on AI'')])], [BrightDataScrape [''AI'']]))
   \<and> (NewsAPIScrape [''AI''] \<in> set (snd (get_news_data world_newsapi [''AI'']))
      \<and> brightdata_eligible world_newsapi
      \<and> NewsScraper_scrape_news world_newsapi [''AI''] = Inl (Exception ''zone blocked'')
      \<and> take 2 (snd (get_news_data world_newsapi [''AI'']))
          = [BrightDataScrape [''AI''], NewsAPIScrape [''AI'']])"
proof -
  have b: "brightdata_eligible world_brightdata"
    by (simp add: brightdata_eligible_def truthy_def world_brightdata_def world_newsapi_def)
  have s: "NewsScraper_scrape_news world_brightdata [''AI'']
        = Inr [(''news_analysis'', [(''AI'', ''Headlines on AI'')])]"
    by (simp add: world_brightdata_def)
  have n: "NewsAPIScrape [''AI''] \<in> set (snd (get_news_data world_newsapi [''AI'']))"
    by code_simp
  have b': "brightdata_eligible world_newsapi"
    by (simp add: brightdata_eligible_def truthy_def world_newsapi_def)
  have s': "NewsScraper_scrape_news world_newsapi [''AI''] = Inl (Exception ''zone blocked'')"
    by (simp add: world_newsapi_def)
  have 1: "get_news_data world_brightdata [''AI'']
        = (Inr [(''news_analysis'', [(''AI'', ''Headlines on AI'')])], [BrightDataScrape [''AI'']])"
    by (rule brightdata_before_newsapi
               [of world_brightdata "[''AI'']" "[(''news_analysis'', [(''AI'', ''Headlines on AI'')])]",
                THEN conjunct1, THEN mp, OF conjI[OF b s], THEN conjunct1])
  have "if brightdata_eligible world_newsapi then
          (\<exists>e. NewsScraper_scrape_news world_newsapi [''AI''] = Inl e)
          \<and> take 2 (snd (get_news_data world_newsapi [''AI'']))
              = [BrightDataScrape [''AI''], NewsAPIScrape [''AI'']]
        else take 1 (snd (get_news_data world_newsapi [''AI''])) = [NewsAPIScrape [''AI'']]"
    by (rule brightdata_before_newsapi
               [of world_newsapi "[''AI'']" _ "[''AI'']", THEN conjunct2, THEN mp, OF n,
                THEN conjunct2])
  then have 2: "take 2 (snd (get_news_data world_newsapi [''AI'']))
              = [BrightDataScrape [''AI''], NewsAPIScrape [''AI'']]"
    by (simp only: b' if_True)
  show ?thesis
    using b s n b' s' 1 2 by blast
qed

section \<open>Exhausted categories\<close>

text \<open>
  C1 fails for the content category. With no news variable set, \<open>get_news_data\<close> raises
  its 503 error instead of returning an empty result, and a request for news ends with
  the user-visible error 500 and no other stage run.
\<close>

theorem content_exhausted_counterexample:
  "\<not> brightdata_eligible world_reddit_only \<and> \<not> newsapi_eligible world_reddit_only
   \<and> get_news_data world_reddit_only [''AI''] = (Inl no_news_source, [])
   \<and> generate_news_audio world_reddit_only (NewsRequest [''AI''] ''news'')
       = (Inl (HTTPException 500
            ''No valid news sources configured. Please set up BRIGHTDATA_API_KEY + BRIGHTDATA_WEB_UNLOCKER_ZONE or NEWSAPI_KEY''),
          [])"
  by code_simp

text \<open>
  C1 as amended. When the Reddit scraper raises, the discussion category's result is the
  empty dictionary and not an error, and in source mode \<open>both\<close> a request whose content
  category returned a non-empty result goes on to the summarizer with that content and
  the empty discussion data. When every content provider is ineligible or has failed
  (BrightData ineligible or raised, and no NewsAPI key), \<open>get_news_data\<close> raises the 503
  error and a request whose source mode is \<open>news\<close> or \<open>both\<close> ends with the error 500,
  having made no call after those of \<open>get_news_data\<close>.
\<close>

theorem exhausted_category_results:
  "(scrape_reddit_topics w topics = Inl e \<longrightarrow>
      collect_reddit w topics ''both'' = (Some [], [RedditScrape topics])
      \<and> (\<forall>nd ev1. get_news_data w topics = (Inr nd, ev1) \<and> nd \<noteq> [] \<longrightarrow>
            Gemini (system_prompt_broadcast @ nl @ nl @ user_prompt_of nd [] topics)
              \<in> set (snd (generate_news_audio w (NewsRequest topics ''both'')))))
   \<and> ((\<not> brightdata_eligible w \<or> (\<exists>e'. NewsScraper_scrape_news w topics = Inl e'))
        \<and> \<not> newsapi_eligible w \<longrightarrow>
        fst (get_news_data w topics) = Inl no_news_source
        \<and> (source_type \<in> {''news'', ''both''} \<longrightarrow>
             generate_news_audio w (NewsRequest topics source_type) =
               (Inl (HTTPException 500 (str_exn w no_news_source)), snd (get_news_data w topics))))"
proof (intro conjI impI allI)
  assume r: "scrape_reddit_topics w topics = Inl e"
  then show "collect_reddit w topics ''both'' = (Some [], [RedditScrape topics])"
    by (simp add: collect_reddit_both)
  fix nd ev1
  assume "get_news_data w topics = (Inr nd, ev1) \<and> nd \<noteq> []"
  then have g: "get_news_data w topics = (Inr nd, ev1)" and nd: "nd \<noteq> []" by simp_all
  have rd: "[] = (case scrape_reddit_topics w topics of Inr d \<Rightarrow> d | Inl e \<Rightarrow> [])"
    using r by simp
  show "Gemini (system_prompt_broadcast @ nl @ nl @ user_prompt_of nd [] topics)
          \<in> set (snd (generate_news_audio w (NewsRequest topics ''both'')))"
    using nd by (simp add: try_both_collected[OF g rd] Let_def split: sum.splits)
next
  assume x: "(\<not> brightdata_eligible w \<or> (\<exists>e'. NewsScraper_scrape_news w topics = Inl e'))
        \<and> \<not> newsapi_eligible w"
  then have g: "get_news_data w topics =
      (Inl no_news_source, if brightdata_eligible w then [BrightDataScrape topics] else [])"
    using news_exhausted[of w topics] by blast
  then show "fst (get_news_data w topics) = Inl no_news_source" by simp
  assume "source_type \<in> {''news'', ''both''}"
  then have "generate_news_audio_try w topics source_type =
      (Inl no_news_source, if brightdata_eligible w then [BrightDataScrape topics] else [])"
    using g by (rule try_news_raises)
  then show "generate_news_audio w (NewsRequest topics source_type) =
               (Inl (HTTPException 500 (str_exn w no_news_source)), snd (get_news_data w topics))"
    by (simp add: g)
qed

theorem exhausted_category_results_witness:
  "(scrape_reddit_topics world_newsapi [''AI''] = Inl (Exception ''reddit down'')
    \<and> collect_reddit world_newsapi [''AI''] ''both'' = (Some [], [RedditScrape [''AI'']])
    \<and> fst (get_news_data world_newsapi [''AI'']) = Inr [(''news_analysis'', [(''AI'', ''Summary.'')])]
    \<and> Gemini (system_prompt_broadcast @ nl @ nl
               @ user_prompt_of [(''news_analysis'', [(''AI'', ''Summary.'')])] [] [''AI''])
        \<in> set (snd (generate_news_audio world_newsapi (NewsRequest [''AI''] ''both''))))
   \<and> (\<not> brightdata_eligible world_reddit_only \<and> \<not> newsapi_eligible world_reddit_only
      \<and> fst (get_news_data world_reddit_only [''AI'']) = Inl no_news_source
      \<and> fst (generate_news_audio world_reddit_only (NewsRequest [''AI''] ''both''))
          = Inl (HTTPException 500 (str_exn world_reddit_only no_news_source)))"
proof -
  have r: "scrape_reddit_topics world_newsapi [''AI''] = Inl (Exception ''reddit down'')"
    by (simp add: world_newsapi_def)
  have g: "fst (get_news_data world_newsapi [''AI''])
             = Inr [(''news_analysis'', [(''AI'', ''Summary.'')])]"
    by code_simp
  then have g': "get_news_data world_newsapi [''AI'']
      = (Inr [(''news_analysis'', [(''AI'', ''Summary.'')])], snd (get_news_data world_newsapi [''AI'']))"
    by (metis prod.collapse)
  have x: "\<not> brightdata_eligible world_reddit_only" "\<not> newsapi_eligible world_reddit_only"
    by (simp_all add: brightdata_eligible_def newsapi_eligible_def truthy_def world_reddit_only_def)
  have a: "collect_reddit world_newsapi [''AI''] ''both'' = (Some [], [RedditScrape [''AI'']])
    \<and> Gemini (system_prompt_broadcast @ nl @ nl
               @ user_prompt_of [(''news_analysis'', [(''AI'', ''Summary.'')])] [] [''AI''])
        \<in> set (snd (generate_news_audio world_newsapi (NewsRequest [''AI''] ''both'')))"
    using r g'
      exhausted_category_results
        [of world_newsapi "[''AI'']" "Exception ''reddit down''" "''both''"]
    by blast
  have b: "fst (get_news_data world_reddit_only [''AI'']) = Inl no_news_source
      \<and> fst (generate_news_audio world_reddit_only (NewsRequest [''AI''] ''both''))
          = Inl (HTTPException 500 (str_exn world_reddit_only no_news_source))"
    using x
      exhausted_category_results
        [of world_reddit_only "[''AI'']" "Exception ''reddit down''" "''both''"]
    by simp
  show ?thesis using r g x a b by blast
qed

section \<open>Requests for both categories\<close>

text \<open>
  C3 fails when the content category is exhausted. With no news variable set and a Reddit
  scraper that answers for the topic, a request in source mode \<open>both\<close> ends with the
  user-visible error 500; its event list is empty, so Reddit was not even consulted.
\<close>

theorem both_mode_counterexample:
  "scrape_reddit_topics world_reddit_only [''AI'']
     = Inr [(''reddit_analysis'', [(''AI'', ''People discuss AI'')])]
   \<and> generate_news_audio world_reddit_only (NewsRequest [''AI''] ''both'')
       = (Inl (HTTPException 500
            ''No valid news sources configured. Please set up BRIGHTDATA_API_KEY + BRIGHTDATA_WEB_UNLOCKER_ZONE or NEWSAPI_KEY''),
          [])"
  by code_simp

text \<open>
  C3 as amended, for source mode \<open>both\<close>. If \<open>get_news_data\<close> raises, the request ends
  with the error 500 and nothing else is called. If it returns, Reddit is consulted, and a
  Reddit failure counts as empty discussion data: when both collected dictionaries are
  empty the request ends with the error 500 before the summarizer; otherwise the
  summarizer runs on what was collected (on the content alone when Reddit failed), and
  the audio is rendered from its script when that is non-empty, the answer being the audio
  unless rendering fails.
\<close>

theorem both_mode_outcomes:
  "(case get_news_data w topics of
      (Inl e, ev1) \<Rightarrow>
        generate_news_audio w (NewsRequest topics ''both'')
          = (Inl (HTTPException 500 (str_exn w e)), ev1)
    | (Inr nd, ev1) \<Rightarrow>
        (let rd = (case scrape_reddit_topics w topics of Inr d \<Rightarrow> d | Inl e \<Rightarrow> []);
             script = fst (generate_broadcast_news w (getenv w ''GEMINI_API_KEY'') nd rd topics);
             prompt = system_prompt_broadcast @ nl @ nl @ user_prompt_of nd rd topics
         in if nd = [] \<and> rd = [] then
              generate_news_audio w (NewsRequest topics ''both'')
                = (Inl (HTTPException 500
                     (str_exn w
                        (HTTPException 503 ''Unable to collect any data from configured sources''))),
                   ev1 @ [RedditScrape topics])
            else if script = [] then
              generate_news_audio w (NewsRequest topics ''both'')
                = (Inl (HTTPException 500
                     (str_exn w (HTTPException 500 ''Failed to generate news script''))),
                   ev1 @ [RedditScrape topics, Gemini prompt])
            else
              generate_news_audio w (NewsRequest topics ''both'')
                = ((case fst (render_audio w script) of
                      Inl e \<Rightarrow> Inl (HTTPException 500 (str_exn w e))
                    | Inr response \<Rightarrow> Inr response),
                   ev1 @ [RedditScrape topics, Gemini prompt, TTS script])))"
proof (cases "get_news_data w topics")
  case (Pair r ev1)
  show ?thesis
  proof (cases r)
    case (Inl e)
    have "generate_news_audio_try w topics ''both'' = (Inl e, ev1)"
      using Pair Inl by (intro try_news_raises) simp_all
    then show ?thesis by (simp add: Pair Inl)
  next
    case (Inr nd)
    have g: "get_news_data w topics = (Inr nd, ev1)" using Pair Inr by simp
    show ?thesis
      unfolding g
      by (simp add: try_both_collected[OF g refl] Let_def split: sum.splits)
  qed
qed

theorem both_mode_outcomes_witness:
  "fst (get_news_data world_newsapi [''AI'']) = Inr [(''news_analysis'', [(''AI'', ''Summary.'')])]
   \<and> scrape_reddit_topics world_newsapi [''AI''] = Inl (Exception ''reddit down'')
   \<and> generate_news_audio world_newsapi (NewsRequest [''AI''] ''both'')
       = (Inr (Response ''ID3'' ''audio/mpeg''
                 [(''Content-Disposition'', ''attachment; filename=news-summary.mp3'')]),
          snd (get_news_data world_newsapi [''AI''])
          @ [RedditScrape [''AI''],
             Gemini (system_prompt_broadcast @ nl @ nl
                     @ user_prompt_of [(''news_analysis'', [(''AI'', ''Summary.'')])] [] [''AI'']),
             TTS ''Summary.''])"
proof -
  have g: "fst (get_news_data world_newsapi [''AI''])
             = Inr [(''news_analysis'', [(''AI'', ''Summary.'')])]"
    by code_simp
  then have g': "get_news_data world_newsapi [''AI'']
      = (Inr [(''news_analysis'', [(''AI'', ''Summary.'')])], snd (get_news_data world_newsapi [''AI'']))"
    by (metis prod.collapse)
  have r: "scrape_reddit_topics world_newsapi [''AI''] = Inl (Exception ''reddit down'')"
    by (simp add: world_newsapi_def)
  have s: "fst (generate_broadcast_news world_newsapi (getenv world_newsapi ''GEMINI_API_KEY'')
                  [(''news_analysis'', [(''AI'', ''Summary.'')])] [] [''AI'']) = ''Summary.''"
    by (simp add: generate_broadcast_news_def world_newsapi_def)
  have a: "fst (render_audio world_newsapi ''Summary.'')
      = Inr (Response ''ID3'' ''audio/mpeg''
               [(''Content-Disposition'', ''attachment; filename=news-summary.mp3'')])"
    by (simp add: render_audio_def tts_to_audio_def world_newsapi_def)
  have "generate_news_audio world_newsapi (NewsRequest [''AI''] ''both'')
       = (Inr (Response ''ID3'' ''audio/mpeg''
                 [(''Content-Disposition'', ''attachment; filename=news-summary.mp3'')]),
          snd (get_news_data world_newsapi [''AI''])
          @ [RedditScrape [''AI''],
             Gemini (system_prompt_broadcast @ nl @ nl
                     @ user_prompt_of [(''news_analysis'', [(''AI'', ''Summary.'')])] [] [''AI'']),
             TTS ''Summary.''])"
    using both_mode_outcomes[of world_newsapi "[''AI'']"]
    by (subst (asm) g') (simp add: r s a Let_def)
  with g r show ?thesis by blast
qed

end
